theory Spec2Isabelle
  imports Main "HOL-Library.Word"
begin

section \<open>Strings, bytes and resource identifiers\<close>

text \<open>
  A JavaScript string is a sequence of 16-bit code units, so the byte-order-mark
  (U+FEFF) is one element. A \<^verbatim>\<open>Uint8Array\<close> is a list of bytes.
\<close>

type_synonym jschar = "16 word"
type_synonym jsstring = "jschar list"
type_synonym bytes = "8 word list"

definition LF :: jschar where "LF = 0x0A"
definition CR :: jschar where "CR = 0x0D"
definition BOM :: jschar where "BOM = 0xFEFF"
definition COLON :: jschar where "COLON = 0x3A"

text \<open>String literals of the source, written as Isabelle strings (ASCII only).\<close>

definition str :: "string \<Rightarrow> jsstring" where
  "str s = map (\<lambda>c. of_nat (of_char c)) s"

text \<open>
  \<^verbatim>\<open>vscode.Uri\<close>: the components the code reads. \<^verbatim>\<open>fsPath\<close> is the path of the
  identifier (POSIX paths).
\<close>

record uri =
  uri_scheme :: jsstring
  uri_path :: jsstring
  uri_query :: jsstring
  uri_fragment :: jsstring

definition fsPath :: "uri \<Rightarrow> jsstring" where
  "fsPath u = uri_path u"

text \<open>
  The template literal \<^verbatim>\<open>`${id}:${version}`\<close> prints the version number. Versions are
  non-negative integers below \<open>2^53\<close>: there a JavaScript number is the integer itself
  and is printed with its exact decimal digits, as \<open>decimal\<close> does. From \<open>2^53\<close> on the
  source prints the digits of the nearest double, which \<open>decimal\<close> does not model.
\<close>

definition digit :: "nat \<Rightarrow> jschar" where
  "digit d = of_nat (48 + d)"

fun decimal :: "nat \<Rightarrow> jsstring" where
  "decimal n = (if n < 10 then [digit n] else decimal (n div 10) @ [digit (n mod 10)])"

declare decimal.simps [simp del]

section \<open>Virtual content providers\<close>

datatype FileSystemError = FileNotFound uri | NoPermissions

datatype FileType = File | Directory

record FileStat =
  stat_type :: FileType
  ctime :: int
  mtime :: int
  stat_size :: nat

datatype FileChangeType = Changed | Created | Deleted

subsection \<open>\<^verbatim>\<open>DiffModifiedNotebookProvider\<close>\<close>

text \<open>
  The provider's state: the \<^verbatim>\<open>content\<close> map (key \<^verbatim>\<open>"id:version"\<close>) and the change
  events its emitter has fired, oldest first.
\<close>

record DiffModifiedNotebookProvider =
  content :: "jsstring \<rightharpoonup> bytes"
  fired :: "(FileChangeType \<times> uri) list"

definition modified_scheme :: jsstring where
  "modified_scheme = str ''pochi-nb-modified''"

definition new_modified_provider :: DiffModifiedNotebookProvider where
  "new_modified_provider = \<lparr>content = Map.empty, fired = []\<rparr>"

definition content_key :: "jsstring \<Rightarrow> nat \<Rightarrow> jsstring" where
  "content_key ident version = ident @ [COLON] @ decimal version"

definition setForFile ::
  "jsstring \<Rightarrow> jsstring \<Rightarrow> bytes \<Rightarrow> nat \<Rightarrow> DiffModifiedNotebookProvider
    \<Rightarrow> DiffModifiedNotebookProvider" where
  "setForFile ident pth data version p =
     (let key = content_key ident version in
      p\<lparr>content := (content p)(key \<mapsto> data),
        fired := fired p @
          [(Changed, \<lparr>uri_scheme = modified_scheme, uri_path = pth, uri_query = key,
                      uri_fragment = []\<rparr>)]\<rparr>)"

text \<open>\<^verbatim>\<open>stat\<close> reads the clock (\<^verbatim>\<open>Date.now()\<close>), passed as \<open>now\<close>.\<close>

definition modified_stat ::
  "DiffModifiedNotebookProvider \<Rightarrow> int \<Rightarrow> uri \<Rightarrow> FileSystemError + FileStat" where
  "modified_stat p now u =
     (let key = uri_query u;
          data = content p key;
          sz = (case data of Some d \<Rightarrow> length d | None \<Rightarrow> 0)
      in Inr \<lparr>stat_type = File, ctime = now, mtime = now, stat_size = sz\<rparr>)"

definition modified_readDirectory ::
  "DiffModifiedNotebookProvider \<Rightarrow> (jsstring \<times> FileType) list" where
  "modified_readDirectory p = []"

definition modified_readFile ::
  "DiffModifiedNotebookProvider \<Rightarrow> uri \<Rightarrow> FileSystemError + bytes" where
  "modified_readFile p u =
     (let key = uri_query u;
          data = content p key
      in case data of
           None \<Rightarrow> Inl (FileNotFound u)
         | Some d \<Rightarrow> Inr d)"

text \<open>
  The four mutating methods take no parameters in the source: whatever the editor
  passes is ignored, and the call throws. A success would return the provider; no
  input has one.
\<close>

definition modified_createDirectory ::
  "DiffModifiedNotebookProvider \<Rightarrow> uri \<Rightarrow> FileSystemError + DiffModifiedNotebookProvider" where
  "modified_createDirectory p u = Inl NoPermissions"

definition modified_writeFile ::
  "DiffModifiedNotebookProvider \<Rightarrow> uri \<Rightarrow> bytes
    \<Rightarrow> FileSystemError + DiffModifiedNotebookProvider" where
  "modified_writeFile p u data = Inl NoPermissions"

definition modified_delete ::
  "DiffModifiedNotebookProvider \<Rightarrow> uri \<Rightarrow> FileSystemError + DiffModifiedNotebookProvider" where
  "modified_delete p u = Inl NoPermissions"

definition modified_rename ::
  "DiffModifiedNotebookProvider \<Rightarrow> uri \<Rightarrow> uri
    \<Rightarrow> FileSystemError + DiffModifiedNotebookProvider" where
  "modified_rename p old new = Inl NoPermissions"

text \<open>A provider's history: the \<^verbatim>\<open>setForFile\<close> calls made on a fresh provider, in order.\<close>

record setForFile_call =
  call_id :: jsstring
  call_path :: jsstring
  call_data :: bytes
  call_version :: nat

definition written_key :: "setForFile_call \<Rightarrow> jsstring" where
  "written_key c = content_key (call_id c) (call_version c)"

definition apply_call :: "DiffModifiedNotebookProvider \<Rightarrow> setForFile_call \<Rightarrow> DiffModifiedNotebookProvider" where
  "apply_call p c = setForFile (call_id c) (call_path c) (call_data c) (call_version c) p"

definition provider_after :: "setForFile_call list \<Rightarrow> DiffModifiedNotebookProvider" where
  "provider_after cs = foldl apply_call new_modified_provider cs"

text \<open>The bytes of the latest call that wrote a key, if any call did.\<close>

definition last_written :: "setForFile_call list \<Rightarrow> jsstring \<Rightarrow> bytes option" where
  "last_written cs key = map_of (rev (map (\<lambda>c. (written_key c, call_data c)) cs)) key"

subsection \<open>\<^verbatim>\<open>DiffOriginNotebookProvider\<close>\<close>

text \<open>
  The original provider keeps no content: the identifier's query carries the original
  bytes in base64, and \<^verbatim>\<open>Buffer.from(uri.query ?? "", "base64")\<close> decodes them. The
  decoder belongs to the runtime and is a parameter \<open>fromBase64\<close> of the two reading
  methods. A query is always a string, so \<^verbatim>\<open>??\<close> never takes its right side.
\<close>

definition origin_scheme :: jsstring where
  "origin_scheme = str ''pochi-nb-origin''"

definition origin_stat ::
  "(jsstring \<Rightarrow> bytes) \<Rightarrow> int \<Rightarrow> uri \<Rightarrow> FileSystemError + FileStat" where
  "origin_stat fromBase64 now u =
     (let sz = length (fromBase64 (uri_query u))
      in Inr \<lparr>stat_type = File, ctime = now, mtime = now, stat_size = sz\<rparr>)"

definition origin_readDirectory :: "(jsstring \<times> FileType) list" where
  "origin_readDirectory = []"

definition origin_readFile :: "(jsstring \<Rightarrow> bytes) \<Rightarrow> uri \<Rightarrow> FileSystemError + bytes" where
  "origin_readFile fromBase64 u = Inr (fromBase64 (uri_query u))"

definition origin_createDirectory :: "uri \<Rightarrow> FileSystemError + unit" where
  "origin_createDirectory u = Inl NoPermissions"

definition origin_writeFile :: "uri \<Rightarrow> bytes \<Rightarrow> FileSystemError + unit" where
  "origin_writeFile u data = Inl NoPermissions"

definition origin_delete :: "uri \<Rightarrow> FileSystemError + unit" where
  "origin_delete u = Inl NoPermissions"

definition origin_rename :: "uri \<Rightarrow> uri \<Rightarrow> FileSystemError + unit" where
  "origin_rename old new = Inl NoPermissions"

text \<open>
  A base64 decoder to run the provider on concrete identifiers: both alphabets of
  RFC 4648, characters outside them skipped, decoding ended by the padding sign.
\<close>

definition sextet :: "jschar \<Rightarrow> nat option" where
  "sextet c =
     (let n = unat c in
      if 65 \<le> n \<and> n \<le> 90 then Some (n - 65)
      else if 97 \<le> n \<and> n \<le> 122 then Some (n - 71)
      else if 48 \<le> n \<and> n \<le> 57 then Some (n + 4)
      else if n = 43 \<or> n = 45 then Some 62
      else if n = 47 \<or> n = 95 then Some 63
      else None)"

fun pack_sextets :: "nat list \<Rightarrow> bytes" where
  "pack_sextets (a # b # c # d # r) =
     [of_nat (a * 4 + b div 16), of_nat ((b mod 16) * 16 + c div 4), of_nat ((c mod 4) * 64 + d)]
       @ pack_sextets r"
| "pack_sextets [a, b, c] = [of_nat (a * 4 + b div 16), of_nat ((b mod 16) * 16 + c div 4)]"
| "pack_sextets [a, b] = [of_nat (a * 4 + b div 16)]"
| "pack_sextets r = []"

definition base64_decode :: "jsstring \<Rightarrow> bytes" where
  "base64_decode s = pack_sextets (List.map_filter sextet (takeWhile (\<lambda>c. c \<noteq> 0x3D) s))"

section \<open>The editor host\<close>

text \<open>
  What the session reads and changes in the editor: the open tabs, the live notebook
  document of its comparison view, and the calls it makes on the editor (kept as a
  trace, oldest first, so that a theorem can say a call was or was not made).
\<close>

datatype TabInput =
    TabInputText uri
  | TabInputTextDiff uri uri
  | TabInputNotebook uri
  | TabInputNotebookDiff uri uri
  | TabInputOther

record Tab =
  tab_input :: TabInput
  tab_isDirty :: bool

record 'c NotebookDocument =
  nb_uri :: uri
  notebookType :: jsstring
  nb_cells :: "'c list"
  nb_isDirty :: bool

definition cellCount :: "'c NotebookDocument \<Rightarrow> int" where
  "cellCount d = int (length (nb_cells d))"

datatype Disposable = NotebookChangeSubscription | AbortListener nat

datatype HostCall =
    RevealRange int int
  | Delay int
  | ApplyEdit uri
  | Save uri
  | SaveAll
  | CloseTab Tab
  | OpenTextDocument uri
  | ShowTextDocument uri
  | AddAbortListener nat
  | VscodeDiff jsstring jsstring bool uri
  | StatAndDeleteIfEmpty uri
  | Dispose Disposable
  | DisposeTabHook

text \<open>
  The result of the command \<^verbatim>\<open>vscode.executeDataToNotebook\<close>: the cells, no data, or an
  exception.
\<close>

datatype 'c Converted = Data "'c list" | NoData | ConversionError

record Change =
  change_added :: bool
  change_removed :: bool
  change_count :: "nat option"
  change_text :: jsstring

text \<open>
  The functions the session calls that are not part of it: the editor's converter (with
  \<^verbatim>\<open>Buffer.from(content, "utf8")\<close> in front of it) and its formatting on save, the
  \<^verbatim>\<open>diff\<close> package's \<^verbatim>\<open>diffLines\<close>, \<^verbatim>\<open>createPrettyPatch\<close>, the diagnostics the editor
  reports now and the report made of two snapshots (\<^verbatim>\<open>diagnosticsToProblemsString\<close> of
  \<^verbatim>\<open>getNewDiagnostics\<close>, errors only), whether \<^verbatim>\<open>VSCODE_TEST_OPTIONS\<close> is set, and the
  clock.
\<close>

record ('c, 'd) Env =
  executeDataToNotebook :: "jsstring \<Rightarrow> jsstring \<Rightarrow> 'c Converted"
  formatOnSave :: "'c list \<Rightarrow> 'c list"
  diffLines :: "jsstring \<Rightarrow> jsstring \<Rightarrow> Change list"
  createPrettyPatch :: "jsstring \<Rightarrow> jsstring \<Rightarrow> jsstring \<Rightarrow> jsstring"
  getDiagnostics :: 'd
  newProblemsString :: "'d \<Rightarrow> 'd \<Rightarrow> jsstring \<Rightarrow> jsstring"
  testMode :: bool
  dateNow :: int

section \<open>The diff session\<close>

record 'd NotebookDiffView =
  view_id :: jsstring
  fileUri :: uri
  fileExists :: bool
  originalContent :: jsstring
  cwd :: jsstring
  isFileOpenBeforeDiffPreview :: bool
  isFinalized :: bool
  isReverted :: bool
  streamedLines :: "jsstring list"
  preDiagnostics :: 'd
  editorDocumentUpdatedAt :: "int option"
  disposables :: "Disposable list"

text \<open>
  The module's variables (\<^verbatim>\<open>DiffViewMap\<close>, in insertion order, \<^verbatim>\<open>DiffViewDisposable\<close>,
  \<^verbatim>\<open>needFocusDiffViews\<close>) and the editor. \<open>notebook\<close> is \<^verbatim>\<open>activeDiffEditor.notebook\<close>
  of the session a method is called on; the method's receiver is passed and returned
  beside the state, since a caller keeps its session after the map has dropped it.
\<close>

record ('c, 'd) State =
  DiffViewMap :: "(jsstring \<times> 'd NotebookDiffView) list"
  DiffViewDisposable :: bool
  needFocusDiffViews :: bool
  notebook :: "'c NotebookDocument"
  tabGroups :: "Tab list list"
  calls :: "HostCall list"

definition call :: "HostCall \<Rightarrow> ('c, 'd) State \<Rightarrow> ('c, 'd) State" where
  "call c st = st\<lparr>calls := calls st @ [c]\<rparr>"

text \<open>The constructor's listener on notebook changes.\<close>

definition onDidChangeNotebookDocument ::
  "uri \<Rightarrow> nat \<Rightarrow> int \<Rightarrow> 'c NotebookDocument \<Rightarrow> 'd NotebookDiffView \<Rightarrow> 'd NotebookDiffView" where
  "onDidChangeNotebookDocument changed contentChanges now nb s =
     (if changed = nb_uri nb \<and> contentChanges > 0
      then s\<lparr>editorDocumentUpdatedAt := Some now\<rparr> else s)"

definition runVSCodeDiff ::
  "jsstring \<Rightarrow> jsstring \<Rightarrow> bool \<Rightarrow> uri \<Rightarrow> ('c, 'd) State \<Rightarrow> ('c, 'd) State" where
  "runVSCodeDiff ident original exists file st = call (VscodeDiff ident original exists file) st"

definition focus :: "'d NotebookDiffView \<Rightarrow> ('c, 'd) State \<Rightarrow> ('c, 'd) State" where
  "focus s st = runVSCodeDiff (view_id s) (originalContent s) (fileExists s) (fileUri s) st"

definition dispose :: "'d NotebookDiffView \<Rightarrow> ('c, 'd) State \<Rightarrow> ('c, 'd) State" where
  "dispose s st =
     (let st1 = (if \<not> fileExists s then call (StatAndDeleteIfEmpty (fileUri s)) st else st)
      in foldl (\<lambda>acc d. call (Dispose d) acc) st1 (disposables s))"

subsection \<open>Closing comparison views, discarding changes\<close>

definition isOriginDiffTab :: "Tab \<Rightarrow> bool" where
  "isOriginDiffTab t =
     (case tab_input t of
        TabInputNotebookDiff original modified \<Rightarrow> uri_scheme original = origin_scheme
      | _ \<Rightarrow> False)"

definition closeTab :: "Tab \<Rightarrow> ('c, 'd) State \<Rightarrow> ('c, 'd) State" where
  "closeTab t st = call (CloseTab t) (st\<lparr>tabGroups := map (removeAll t) (tabGroups st)\<rparr>)"

definition closeAllNonDirtyDiffViews :: "('c, 'd) State \<Rightarrow> ('c, 'd) State" where
  "closeAllNonDirtyDiffViews st =
     (let tabs = filter isOriginDiffTab (concat (tabGroups st))
      in foldl (\<lambda>acc t. if \<not> tab_isDirty t then closeTab t acc else acc) st tabs)"

text \<open>
  \<^verbatim>\<open>applyEdit\<close> with one \<^verbatim>\<open>replaceCells\<close> over the full range: the document holds the new
  cells and is dirty. Saving runs the editor's formatting and clears the dirty flag.
\<close>

definition applyEdit_replaceCells :: "'c list \<Rightarrow> ('c, 'd) State \<Rightarrow> ('c, 'd) State" where
  "applyEdit_replaceCells cells st =
     call (ApplyEdit (nb_uri (notebook st)))
       (st\<lparr>notebook := (notebook st)\<lparr>nb_cells := cells, nb_isDirty := True\<rparr>\<rparr>)"

definition saved :: "('c, 'd) Env \<Rightarrow> 'c NotebookDocument \<Rightarrow> 'c NotebookDocument" where
  "saved env nb = nb\<lparr>nb_cells := formatOnSave env (nb_cells nb), nb_isDirty := False\<rparr>"

datatype Outcome = Resolved | Rejected

definition discardChangesWithWorkspaceEdit ::
  "('c, 'd) Env \<Rightarrow> jsstring \<Rightarrow> ('c, 'd) State \<Rightarrow> Outcome \<times> ('c, 'd) State" where
  "discardChangesWithWorkspaceEdit env original st =
     (if \<not> nb_isDirty (notebook st) then (Resolved, st)
      else case executeDataToNotebook env (notebookType (notebook st)) original of
             ConversionError \<Rightarrow> (Rejected, st)
           | NoData \<Rightarrow> (Resolved, st)
           | Data cells \<Rightarrow>
               (let st1 = applyEdit_replaceCells cells st;
                    st2 = call SaveAll (st1\<lparr>notebook := saved env (notebook st1)\<rparr>)
                in (Resolved, st2)))"

definition revertAndClose ::
  "('c, 'd) Env \<Rightarrow> 'd NotebookDiffView \<times> ('c, 'd) State
    \<Rightarrow> Outcome \<times> 'd NotebookDiffView \<times> ('c, 'd) State" where
  "revertAndClose env x =
     (case x of (s, st) \<Rightarrow>
        if isReverted s then (Resolved, s, st)
        else
          let s1 = s\<lparr>isReverted := True\<rparr> in
          case discardChangesWithWorkspaceEdit env (originalContent s1) st of
            (Rejected, st1) \<Rightarrow> (Rejected, s1, st1)
          | (Resolved, st1) \<Rightarrow>
              (let st2 = closeAllNonDirtyDiffViews st1;
                   st3 = (if isFileOpenBeforeDiffPreview s1
                          then call (ShowTextDocument (fileUri s1))
                                 (call (OpenTextDocument (fileUri s1)) st2)
                          else st2)
               in (Resolved, s1, st3)))"

subsection \<open>\<^verbatim>\<open>update\<close>\<close>

text \<open>\<^verbatim>\<open>content.startsWith("\ufeff")\<close>, then \<^verbatim>\<open>content.slice(1)\<close>.\<close>

definition stripBOM :: "jsstring \<Rightarrow> jsstring" where
  "stripBOM s = (case s of c # rest \<Rightarrow> if c = BOM then rest else s | [] \<Rightarrow> s)"

text \<open>\<^verbatim>\<open>String.prototype.split\<close> with a one-unit separator: never an empty array.\<close>

fun js_split :: "'a \<Rightarrow> 'a list \<Rightarrow> 'a list list" where
  "js_split sep [] = [[]]"
| "js_split sep (c # cs) =
     (if c = sep then [] # js_split sep cs
      else case js_split sep cs of
             l # ls \<Rightarrow> (c # l) # ls
           | [] \<Rightarrow> [[c]])"

definition clampCell :: "int \<Rightarrow> int \<Rightarrow> int" where
  "clampCell line cnt = min line (max 0 (cnt - 1))"

definition scrollNotebookToCell :: "int \<Rightarrow> ('c, 'd) State \<Rightarrow> ('c, 'd) State" where
  "scrollNotebookToCell index st =
     (let cellIdx = min (max 0 index) (max 0 (cellCount (notebook st) - 1))
      in call (RevealRange cellIdx cellIdx) st)"

definition scrollToFirstNotebookCell :: "('c, 'd) State \<Rightarrow> ('c, 'd) State" where
  "scrollToFirstNotebookCell st =
     (let idx = max 0 (min 0 (cellCount (notebook st) - 1))
      in call (RevealRange idx idx) st)"

text \<open>
  The scrolling loop \<^verbatim>\<open>for (line = startLine; line <= endLine; line += stepSize)\<close>, with
  \<^verbatim>\<open>stepSize = Math.max(1, Math.floor(totalLines / numSteps))\<close>: one reveal and one 16 ms
  timer per round.
\<close>

function scrollAnimation :: "int \<Rightarrow> int \<Rightarrow> int \<Rightarrow> ('c, 'd) State \<Rightarrow> ('c, 'd) State" where
  "scrollAnimation line endLine totalLines st =
     (if line \<le> endLine
      then scrollAnimation (line + max 1 (totalLines div 10)) endLine totalLines
             (call (Delay 16)
               (call (RevealRange (clampCell line (cellCount (notebook st)))
                                  (clampCell line (cellCount (notebook st)))) st))
      else st)"
  by pat_completeness auto
termination
  by (relation "measure (\<lambda>(line, endLine, totalLines, st). nat (endLine + 1 - line))") auto

declare scrollAnimation.simps [simp del]

definition ShouldAutoScroll :: bool where
  "ShouldAutoScroll = True"

text \<open>
  \<open>update\<close>, with three of its blocks named: the registration of the abort listener,
  the scrolling to the newly streamed lines (from the numbers of lines streamed before
  and of new lines), and the application of the final content.
\<close>

definition registerAbortListener ::
  "nat option \<Rightarrow> 'd NotebookDiffView \<times> ('c, 'd) State \<Rightarrow> 'd NotebookDiffView \<times> ('c, 'd) State" where
  "registerAbortListener abortSignal x =
     (case x of (s, st) \<Rightarrow>
        case abortSignal of
          Some sig \<Rightarrow> (s\<lparr>disposables := disposables s @ [AbortListener sig]\<rparr>,
                       call (AddAbortListener sig) st)
        | None \<Rightarrow> (s, st))"

definition autoScroll :: "nat \<Rightarrow> nat \<Rightarrow> ('c, 'd) State \<Rightarrow> ('c, 'd) State" where
  "autoScroll streamed new st =
     (let currentLine = int streamed + int new - 1
      in if currentLine \<ge> 0
         then if ShouldAutoScroll
              then if new \<le> 5
                   then scrollNotebookToCell currentLine st
                   else let startLine = int streamed;
                            endLine = currentLine;
                            totalLines = endLine - startLine
                        in scrollNotebookToCell currentLine
                             (scrollAnimation startLine endLine totalLines st)
              else st
         else st)"

definition applyFinalContent :: "('c, 'd) Env \<Rightarrow> jsstring \<Rightarrow> ('c, 'd) State \<Rightarrow> ('c, 'd) State" where
  "applyFinalContent env accumulatedContent st =
     (let st1 = (case executeDataToNotebook env (notebookType (notebook st)) accumulatedContent of
                   Data cells \<Rightarrow> applyEdit_replaceCells cells st
                 | NoData \<Rightarrow> st
                 | ConversionError \<Rightarrow> st)
      in scrollToFirstNotebookCell (call (Delay 300) st1))"

definition update ::
  "('c, 'd) Env \<Rightarrow> jsstring \<Rightarrow> bool \<Rightarrow> nat option \<Rightarrow> 'd NotebookDiffView \<times> ('c, 'd) State
    \<Rightarrow> 'd NotebookDiffView \<times> ('c, 'd) State" where
  "update env content' isFinal abortSignal x =
     (case x of (s, st) \<Rightarrow>
        if isFinalized s \<or> isReverted s then (s, st)
        else
          let s1 = (if isFinal then s\<lparr>isFinalized := True\<rparr> else s);
              (s2, st2) = registerAbortListener abortSignal (s1, st);
              accumulatedContent = stripBOM content';
              split = js_split LF accumulatedContent;
              accumulatedLines = (if \<not> isFinal then butlast split else split);
              diffLines' = drop (length (streamedLines s2)) accumulatedLines;
              st3 = autoScroll (length (streamedLines s2)) (length diffLines') st2;
              s3 = s2\<lparr>streamedLines := accumulatedLines\<rparr>
          in if isFinal
             then (s3, applyFinalContent env accumulatedContent st3)
             else (s3, st3))"

subsection \<open>\<^verbatim>\<open>saveChanges\<close>\<close>

record EditSummary =
  added :: nat
  removed :: nat

definition getEditSummary ::
  "(jsstring \<Rightarrow> jsstring \<Rightarrow> Change list) \<Rightarrow> jsstring \<Rightarrow> jsstring \<Rightarrow> EditSummary" where
  "getEditSummary differ original modified =
     foldl (\<lambda>acc part.
              if change_added part
              then acc\<lparr>added := added acc + (case change_count part of Some n \<Rightarrow> n | None \<Rightarrow> 0)\<rparr>
              else if change_removed part
              then acc\<lparr>removed := removed acc + (case change_count part of Some n \<Rightarrow> n | None \<Rightarrow> 0)\<rparr>
              else acc)
       \<lparr>added = 0, removed = 0\<rparr> (differ original modified)"

definition waitForDiagnostic ::
  "('c, 'd) Env \<Rightarrow> 'd NotebookDiffView \<Rightarrow> ('c, 'd) State \<Rightarrow> ('c, 'd) State" where
  "waitForDiagnostic env s st =
     (if testMode env then st
      else let waitForDiagnosticMs = 1000;
               timeoutDuration =
                 (case editorDocumentUpdatedAt s of
                    Some t \<Rightarrow> max 1 (min waitForDiagnosticMs (t + waitForDiagnosticMs - dateNow env))
                  | None \<Rightarrow> waitForDiagnosticMs)
           in call (Delay timeoutDuration) st)"

text \<open>\<^verbatim>\<open>s.includes("\r\n")\<close> and \<^verbatim>\<open>s.replace(/\r\n|\n/g, eol)\<close>.\<close>

fun includesCRLF :: "jsstring \<Rightarrow> bool" where
  "includesCRLF (c # d # cs) = ((c = CR \<and> d = LF) \<or> includesCRLF (d # cs))"
| "includesCRLF cs = False"

fun replaceEOL :: "jsstring \<Rightarrow> jsstring \<Rightarrow> jsstring" where
  "replaceEOL eol (c # d # cs) =
     (if c = CR \<and> d = LF then eol @ replaceEOL eol cs
      else if c = LF then eol @ replaceEOL eol (d # cs)
      else c # replaceEOL eol (d # cs))"
| "replaceEOL eol [c] = (if c = LF then eol else [c])"
| "replaceEOL eol [] = []"

text \<open>
  \<^verbatim>\<open>trimEnd\<close> removes the white space and line terminators of ECMAScript at the end
  (the byte-order-mark is one of them).
\<close>

definition isWhiteSpace :: "jschar \<Rightarrow> bool" where
  "isWhiteSpace c =
     (c \<in> {0x09, 0x0A, 0x0B, 0x0C, 0x0D, 0x20, 0xA0, 0x1680, 0x2000, 0x2001, 0x2002, 0x2003,
           0x2004, 0x2005, 0x2006, 0x2007, 0x2008, 0x2009, 0x200A, 0x2028, 0x2029, 0x202F,
           0x205F, 0x3000, 0xFEFF})"

definition trimEnd :: "jsstring \<Rightarrow> jsstring" where
  "trimEnd s = rev (dropWhile isWhiteSpace (rev s))"

definition normalizeContent :: "jsstring \<Rightarrow> jsstring \<Rightarrow> jsstring" where
  "normalizeContent eol s = trimEnd (replaceEOL eol s) @ eol"

record SaveResult =
  userEdits :: "jsstring option"
  autoFormattingEdits :: "jsstring option"
  newProblems :: jsstring
  editSummary :: EditSummary

definition saveChanges ::
  "('c, 'd) Env \<Rightarrow> jsstring \<Rightarrow> jsstring \<Rightarrow> 'd NotebookDiffView \<times> ('c, 'd) State
    \<Rightarrow> SaveResult \<times> 'd NotebookDiffView \<times> ('c, 'd) State" where
  "saveChanges env relPath newContent x =
     (case x of (s, st) \<Rightarrow>
        let preSaveContent = notebookType (notebook st);
            st1 = (if nb_isDirty (notebook st)
                   then call (Save (nb_uri (notebook st))) (st\<lparr>notebook := saved env (notebook st)\<rparr>)
                   else st);
            postSaveContent = notebookType (notebook st1);
            summary = getEditSummary (diffLines env)
                        (if originalContent s = [] then [] else originalContent s) postSaveContent;
            st2 = call (ShowTextDocument (fileUri s)) (call (OpenTextDocument (fileUri s)) st1);
            st3 = st2\<lparr>needFocusDiffViews := True\<rparr>;
            st4 = closeAllNonDirtyDiffViews st3;
            st5 = waitForDiagnostic env s st4;
            problems = newProblemsString env (preDiagnostics s) (getDiagnostics env) (cwd s);
            newContentEOL = (if includesCRLF newContent then [CR, LF] else [LF]);
            normalizedPreSaveContent = normalizeContent newContentEOL preSaveContent;
            normalizedPostSaveContent = normalizeContent newContentEOL postSaveContent;
            normalizedNewContent = normalizeContent newContentEOL newContent;
            user = (if normalizedPreSaveContent \<noteq> normalizedNewContent
                    then Some (createPrettyPatch env relPath normalizedNewContent
                                 normalizedPreSaveContent)
                    else None);
            formatting = (if normalizedPreSaveContent \<noteq> normalizedPostSaveContent
                    then Some (createPrettyPatch env relPath normalizedPreSaveContent
                                 normalizedPostSaveContent)
                    else None)
        in (\<lparr>userEdits = user, autoFormattingEdits = formatting, newProblems = problems,
             editSummary = summary\<rparr>, s, st5))"

section \<open>The tab reconciler\<close>

record TabChangeEvent =
  opened :: "Tab list"
  closed :: "Tab list"
  changed :: "Tab list"

text \<open>\<^verbatim>\<open>Set.prototype.add\<close>, the set kept in insertion order.\<close>

definition set_add :: "'a \<Rightarrow> 'a list \<Rightarrow> 'a list" where
  "set_add a xs = (if a \<in> set xs then xs else xs @ [a])"

definition visibleDiffViewIds :: "Tab list list \<Rightarrow> jsstring list" where
  "visibleDiffViewIds groups =
     foldl (\<lambda>acc t.
              case tab_input t of
                TabInputTextDiff original modified \<Rightarrow>
                  if uri_scheme original = origin_scheme then set_add (uri_path original) acc
                  else acc
              | _ \<Rightarrow> acc)
       [] (concat groups)"

definition focusDiffViews :: "('c, 'd) State \<Rightarrow> ('c, 'd) State" where
  "focusDiffViews st = foldl (\<lambda>acc (ident, diffView). focus diffView acc) st (DiffViewMap st)"

definition handleTabChanges :: "TabChangeEvent \<Rightarrow> ('c, 'd) State \<Rightarrow> ('c, 'd) State" where
  "handleTabChanges e st =
     (if length (closed e) = 0 then st
      else
        let visible = visibleDiffViewIds (tabGroups st);
            (idsToRemove1, filePathsToClose) =
              foldl (\<lambda>(ids, paths) (ident, diffView).
                       if ident \<notin> set visible
                       then (set_add ident ids, set_add (fsPath (fileUri diffView)) paths)
                       else (ids, paths))
                ([], []) (DiffViewMap st);
            idsToRemove =
              foldl (\<lambda>ids (ident, diffView).
                       if fsPath (fileUri diffView) \<in> set filePathsToClose
                       then set_add ident ids else ids)
                idsToRemove1 (DiffViewMap st);
            st1 = foldl (\<lambda>acc ident.
                           case map_of (DiffViewMap acc) ident of
                             Some diffView \<Rightarrow>
                               (dispose diffView acc)
                                 \<lparr>DiffViewMap := filter (\<lambda>(k, v). k \<noteq> ident) (DiffViewMap acc)\<rparr>
                           | None \<Rightarrow> acc)
                    st idsToRemove;
            st2 = (if length (DiffViewMap st1) = 0 \<and> DiffViewDisposable st1
                   then (call DisposeTabHook st1)\<lparr>DiffViewDisposable := False\<rparr>
                   else st1)
        in if needFocusDiffViews st2
           then focusDiffViews (st2\<lparr>needFocusDiffViews := False\<rparr>)
           else st2)"

text \<open>
  To state what the reconciler keeps: the tabs it takes for visible comparison views,
  and the file paths of the registered sessions it finds no such tab for.
\<close>

definition isOriginTextDiffTab :: "Tab \<Rightarrow> bool" where
  "isOriginTextDiffTab t =
     (case tab_input t of
        TabInputTextDiff original modified \<Rightarrow> uri_scheme original = origin_scheme
      | _ \<Rightarrow> False)"

definition closedPaths :: "('c, 'd) State \<Rightarrow> jsstring list" where
  "closedPaths st =
     map (\<lambda>(k, v). fsPath (fileUri v))
       (filter (\<lambda>(k, v). k \<notin> set (visibleDiffViewIds (tabGroups st))) (DiffViewMap st))"

section \<open>Line differences\<close>

text \<open>
  A line differ to run \<open>getEditSummary\<close> on concrete contents. Lines keep their
  terminator (\<^verbatim>\<open>\n\<close> or \<^verbatim>\<open>\r\n\<close>) and an empty last line is no line; the edit script
  is a shortest one, so the numbers of added and removed lines are those of every
  shortest script; neighbouring lines of one kind make one part, counted.
\<close>

fun lineTokens :: "jsstring \<Rightarrow> jsstring \<Rightarrow> jsstring list" where
  "lineTokens cur (c # d # cs) =
     (if c = CR \<and> d = LF then (cur @ [c, d]) # lineTokens [] cs
      else if c = LF then (cur @ [c]) # lineTokens [] (d # cs)
      else lineTokens (cur @ [c]) (d # cs))"
| "lineTokens cur [c] = [cur @ [c]]"
| "lineTokens cur [] = (if cur = [] then [] else [cur])"

datatype EditKind = Common | Added | Removed

definition editCost :: "(EditKind \<times> 'a) list \<Rightarrow> nat" where
  "editCost es = length (filter (\<lambda>(k, v). k \<noteq> Common) es)"

fun editScript :: "'a list \<Rightarrow> 'a list \<Rightarrow> (EditKind \<times> 'a) list" where
  "editScript [] ys = map (Pair Added) ys"
| "editScript (x # xs) [] = map (Pair Removed) (x # xs)"
| "editScript (x # xs) (y # ys) =
     (if x = y then (Common, x) # editScript xs ys
      else let r = (Removed, x) # editScript xs (y # ys);
               a = (Added, y) # editScript (x # xs) ys
           in if editCost r \<le> editCost a then r else a)"

definition mkChange :: "EditKind \<Rightarrow> nat \<Rightarrow> jsstring \<Rightarrow> Change" where
  "mkChange k n v =
     \<lparr>change_added = (k = Added), change_removed = (k = Removed), change_count = Some n,
      change_text = v\<rparr>"

fun groupEdits :: "(EditKind \<times> jsstring) list \<Rightarrow> (EditKind \<times> nat \<times> jsstring) list" where
  "groupEdits [] = []"
| "groupEdits ((k, v) # es) =
     (case groupEdits es of
        (k', n, w) # gs \<Rightarrow> if k' = k then (k, Suc n, v @ w) # gs else (k, 1, v) # (k', n, w) # gs
      | [] \<Rightarrow> [(k, 1, v)])"

definition lineDiff :: "jsstring \<Rightarrow> jsstring \<Rightarrow> Change list" where
  "lineDiff old new =
     map (\<lambda>(k, n, v). mkChange k n v)
       (groupEdits (editScript (lineTokens [] old) (lineTokens [] new)))"

section \<open>A session on an existing notebook\<close>

text \<open>
  The editor of the examples: the converter makes one cell of the text it is given,
  saving formats nothing, patches are the two texts one after the other, there are no
  diagnostics, and the test mode is on. The second editor indents every cell by one
  space when it saves.
\<close>

definition plain_env :: "(jsstring, unit) Env" where
  "plain_env =
     \<lparr>executeDataToNotebook = (\<lambda>nbType s. Data [s]), formatOnSave = (\<lambda>cells. cells),
      diffLines = lineDiff, createPrettyPatch = (\<lambda>relPath a b. relPath @ a @ b),
      getDiagnostics = (), newProblemsString = (\<lambda>pre post dir. []), testMode = True,
      dateNow = 0\<rparr>"

definition indenting_env :: "(jsstring, unit) Env" where
  "indenting_env = plain_env\<lparr>formatOnSave := map (\<lambda>cell. str '' '' @ cell)\<rparr>"

definition file_a :: uri where
  "file_a = \<lparr>uri_scheme = str ''file'', uri_path = str ''/w/a.ipynb'', uri_query = [],
              uri_fragment = []\<rparr>"

definition file_b :: uri where
  "file_b = \<lparr>uri_scheme = str ''file'', uri_path = str ''/w/b.ipynb'', uri_query = [],
              uri_fragment = []\<rparr>"

text \<open>
  The identifier of the original side, as \<^verbatim>\<open>runVSCodeDiff\<close> builds it: the session id as
  path, the original content in base64 as query, the file's path as fragment. The
  comparison view of a session is a notebook diff tab of that identifier and the file.
\<close>

definition originUri :: "jsstring \<Rightarrow> jsstring \<Rightarrow> uri \<Rightarrow> uri" where
  "originUri ident encoded file =
     \<lparr>uri_scheme = origin_scheme, uri_path = ident, uri_query = encoded,
      uri_fragment = fsPath file\<rparr>"

definition diffTab :: "jsstring \<Rightarrow> jsstring \<Rightarrow> uri \<Rightarrow> Tab" where
  "diffTab ident encoded file =
     \<lparr>tab_input = TabInputNotebookDiff (originUri ident encoded file) file,
      tab_isDirty = False\<rparr>"

definition a_b_base64 :: jsstring where
  "a_b_base64 = str ''YQpiCg==''"

definition session :: "jsstring \<Rightarrow> uri \<Rightarrow> jsstring \<Rightarrow> unit NotebookDiffView" where
  "session ident file original =
     \<lparr>view_id = ident, fileUri = file, fileExists = True, originalContent = original,
      cwd = str ''/w'', isFileOpenBeforeDiffPreview = False, isFinalized = False,
      isReverted = False, streamedLines = [], preDiagnostics = (),
      editorDocumentUpdatedAt = None, disposables = [NotebookChangeSubscription]\<rparr>"

definition a_b :: jsstring where
  "a_b = str ''a'' @ [LF] @ str ''b'' @ [LF]"

definition a_c :: jsstring where
  "a_c = str ''a'' @ [LF] @ str ''c'' @ [LF]"

definition session_X :: "unit NotebookDiffView" where
  "session_X = session (str ''X'') file_a a_b"

definition session_Y :: "unit NotebookDiffView" where
  "session_Y = session (str ''Y'') file_b a_b"

definition state_X :: "(jsstring, unit) State" where
  "state_X =
     \<lparr>DiffViewMap = [(str ''X'', session_X)], DiffViewDisposable = True,
      needFocusDiffViews = False,
      notebook = \<lparr>nb_uri = file_a, notebookType = str ''jupyter-notebook'', nb_cells = [a_b],
                   nb_isDirty = False\<rparr>,
      tabGroups = [[diffTab (str ''X'') a_b_base64 file_a]], calls = []\<rparr>"

text \<open>
  Two sessions on two files; the tab of \<open>X\<close> has just been closed, the comparison view
  of \<open>Y\<close> is still open.
\<close>

definition state_XY :: "(jsstring, unit) State" where
  "state_XY =
     state_X\<lparr>DiffViewMap := [(str ''X'', session_X), (str ''Y'', session_Y)],
             tabGroups := [[diffTab (str ''Y'') a_b_base64 file_b]]\<rparr>"

definition closed_X :: TabChangeEvent where
  "closed_X = \<lparr>opened = [], closed = [diffTab (str ''X'') a_b_base64 file_a], changed = []\<rparr>"

text \<open>The session of \<open>X\<close> once finalized, with one line streamed.\<close>

definition finalized_X :: "unit NotebookDiffView" where
  "finalized_X = session_X\<lparr>isFinalized := True, streamedLines := [str ''a'']\<rparr>"

text \<open>
  The session of \<open>X\<close> in the middle of streaming: one line streamed so far, a document of
  four cells, and a text of three lines, the last without its terminator.
\<close>

definition streaming_X :: "unit NotebookDiffView" where
  "streaming_X = session_X\<lparr>streamedLines := [str ''a'']\<rparr>"

definition state_four_cells :: "(jsstring, unit) State" where
  "state_four_cells =
     state_X\<lparr>notebook := (notebook state_X)\<lparr>nb_cells := [a_b, a_b, a_b, a_b]\<rparr>\<rparr>"

definition a_b_c :: jsstring where
  "a_b_c = str ''a'' @ [LF] @ str ''b'' @ [LF] @ str ''c''"

text \<open>
  What the tool handler does with a notebook: \<^verbatim>\<open>update(text, true)\<close>, then
  \<^verbatim>\<open>saveChanges(path, text)\<close> with the same text.
\<close>

definition updated_X ::
  "(jsstring, unit) Env \<Rightarrow> jsstring \<Rightarrow> unit NotebookDiffView \<times> (jsstring, unit) State" where
  "updated_X env text' = update env text' True None (session_X, state_X)"

definition saved_X ::
  "(jsstring, unit) Env \<Rightarrow> jsstring
    \<Rightarrow> SaveResult \<times> unit NotebookDiffView \<times> (jsstring, unit) State" where
  "saved_X env text' = saveChanges env (str ''a.ipynb'') text' (updated_X env text')"

text \<open>One \<^verbatim>\<open>setForFile\<close> call for \<open>X\<close>, version 0, and an identifier that asks for version 1.\<close>

definition one_call :: setForFile_call where
  "one_call = \<lparr>call_id = str ''X'', call_path = str ''/w/a.ipynb'', call_data = [1, 2, 3],
               call_version = 0\<rparr>"

definition uri_X1 :: uri where
  "uri_X1 = \<lparr>uri_scheme = modified_scheme, uri_path = str ''/w/a.ipynb'',
             uri_query = str ''X:1'', uri_fragment = []\<rparr>"

section \<open>Properties of the providers\<close>

lemma provider_after_snoc:
  "provider_after (cs @ [c]) = apply_call (provider_after cs) c"
  by (simp add: provider_after_def)

lemma content_provider_after: "content (provider_after cs) = last_written cs"
proof (induction cs rule: rev_induct)
  case Nil
  show ?case
    by (rule ext) (simp add: provider_after_def new_modified_provider_def last_written_def)
next
  case (snoc c cs)
  show ?case
  proof (rule ext)
    fix k
    have "content (provider_after (cs @ [c])) k =
            (if k = written_key c then Some (call_data c) else content (provider_after cs) k)"
      by (simp add: provider_after_snoc apply_call_def setForFile_def written_key_def Let_def)
    also have "\<dots> = last_written (cs @ [c]) k"
      using snoc.IH by (simp add: last_written_def)
    finally show "content (provider_after (cs @ [c])) k = last_written (cs @ [c]) k" .
  qed
qed

lemma last_written_None: "key \<notin> written_key ` set cs \<Longrightarrow> last_written cs key = None"
  by (auto simp: last_written_def map_of_eq_None_iff image_iff)

lemma origin_readFile_a_b:
  "origin_readFile base64_decode (originUri (str ''X'') a_b_base64 file_a)
     = Inr [0x61, 0x0A, 0x62, 0x0A]"
  by (simp add: origin_readFile_def originUri_def base64_decode_def List.map_filter_def
      a_b_base64_def str_def sextet_def)

lemma one_call_key: "written_key one_call = str ''X:0''"
  by (simp add: written_key_def one_call_def content_key_def decimal.simps digit_def str_def
      COLON_def)

text \<open>
  Claim C8. On the modified provider, after any sequence of \<^verbatim>\<open>setForFile\<close> calls (with
  versions below \<open>2^53\<close>), \<^verbatim>\<open>readFile\<close> returns the bytes last stored under the
  identifier's query, and fails with \<^verbatim>\<open>FileNotFound\<close> when no call stored that key. On
  the original provider the stored bytes are in the identifier itself, so no key is
  absent: \<^verbatim>\<open>readFile\<close> returns the decoding of the query. On both providers
  \<^verbatim>\<open>writeFile\<close>, \<^verbatim>\<open>createDirectory\<close>, \<^verbatim>\<open>delete\<close> and \<^verbatim>\<open>rename\<close> fail with
  \<^verbatim>\<open>NoPermissions\<close> for every provider state and every argument.
\<close>

theorem providers_readFile_and_mutations:
  assumes "\<forall>c \<in> set cs. call_version c < 2 ^ 53"
  shows "modified_readFile (provider_after cs) u =
           (case last_written cs (uri_query u) of
              Some d \<Rightarrow> Inr d
            | None \<Rightarrow> Inl (FileNotFound u))
         \<and> origin_readFile fromBase64 u = Inr (fromBase64 (uri_query u))
         \<and> modified_writeFile p u data = Inl NoPermissions
         \<and> modified_createDirectory p u = Inl NoPermissions
         \<and> modified_delete p u = Inl NoPermissions
         \<and> modified_rename p u v = Inl NoPermissions
         \<and> origin_writeFile u data = Inl NoPermissions
         \<and> origin_createDirectory u = Inl NoPermissions
         \<and> origin_delete u = Inl NoPermissions
         \<and> origin_rename u v = Inl NoPermissions"
  by (simp add: modified_readFile_def content_provider_after origin_readFile_def
      modified_writeFile_def modified_createDirectory_def modified_delete_def
      modified_rename_def origin_writeFile_def origin_createDirectory_def origin_delete_def
      origin_rename_def split: option.split)

theorem providers_readFile_and_mutations_witness:
  "call_version one_call < 2 ^ 53
   \<and> modified_readFile (provider_after [one_call]) (uri_X1\<lparr>uri_query := str ''X:0''\<rparr>)
        = Inr [1, 2, 3]
   \<and> modified_readFile (provider_after [one_call]) uri_X1 = Inl (FileNotFound uri_X1)
   \<and> origin_readFile base64_decode (originUri (str ''X'') a_b_base64 file_a)
        = Inr [0x61, 0x0A, 0x62, 0x0A]
   \<and> modified_writeFile (provider_after [one_call]) uri_X1 [4] = Inl NoPermissions
   \<and> origin_writeFile (originUri (str ''X'') a_b_base64 file_a) [4] = Inl NoPermissions"
proof -
  have v: "call_version one_call < 2 ^ 53"
    by (simp add: one_call_def)
  then have h: "\<forall>c \<in> set [one_call]. call_version c < 2 ^ 53"
    by simp
  have hit: "last_written [one_call] (str ''X:0'') = Some [1, 2, 3]"
    by (simp add: last_written_def one_call_key) (simp add: one_call_def)
  have miss: "last_written [one_call] (uri_query uri_X1) = None"
    by (simp add: last_written_def one_call_key) (simp add: uri_X1_def str_def)
  have dec: "base64_decode a_b_base64 = [0x61, 0x0A, 0x62, 0x0A]"
    by (simp add: base64_decode_def List.map_filter_def a_b_base64_def str_def sextet_def)
  show ?thesis
    using v
      providers_readFile_and_mutations [OF h, of "uri_X1\<lparr>uri_query := str ''X:0''\<rparr>"
        base64_decode "provider_after [one_call]" "[4]"]
      providers_readFile_and_mutations [OF h, of uri_X1 base64_decode
        "provider_after [one_call]" "[4]"]
      providers_readFile_and_mutations [OF h, of "originUri (str ''X'') a_b_base64 file_a"
        base64_decode "provider_after [one_call]" "[4]"]
    by (simp add: hit miss dec originUri_def)
qed

text \<open>
  The identifier of a session on a new file has an empty query: the original content
  stored in it is empty, and \<^verbatim>\<open>readFile\<close> returns the empty byte array.
\<close>

lemma origin_readFile_empty_query:
  "origin_readFile base64_decode (originUri (str ''X'') [] file_a) = Inr []"
  by (simp add: origin_readFile_def originUri_def base64_decode_def List.map_filter_def)

text \<open>
  Claim C10. On the modified provider \<^verbatim>\<open>stat\<close> returns a result for every provider
  state, clock and identifier; for a key that no \<^verbatim>\<open>setForFile\<close> call has written it is a
  \<^verbatim>\<open>File\<close> stat of size 0 with both timestamps the current time, while \<^verbatim>\<open>readFile\<close> of
  the same identifier fails with \<^verbatim>\<open>FileNotFound\<close>.
\<close>

theorem stat_of_unwritten_key:
  assumes "uri_query u \<notin> written_key ` set cs"
  shows "modified_stat (provider_after cs) now u =
           Inr \<lparr>stat_type = File, ctime = now, mtime = now, stat_size = 0\<rparr>
         \<and> modified_readFile (provider_after cs) u = Inl (FileNotFound u)
         \<and> (\<forall>q t v. \<exists>st. modified_stat q t v = Inr st)"
  using last_written_None [OF assms]
  by (simp add: modified_stat_def modified_readFile_def content_provider_after)

theorem stat_of_unwritten_key_witness:
  "uri_query uri_X1 \<notin> written_key ` set [one_call]
   \<and> modified_stat (provider_after [one_call]) 7 uri_X1 =
           Inr \<lparr>stat_type = File, ctime = 7, mtime = 7, stat_size = 0\<rparr>
   \<and> modified_readFile (provider_after [one_call]) uri_X1 = Inl (FileNotFound uri_X1)
   \<and> modified_readFile (provider_after [one_call]) (uri_X1\<lparr>uri_query := str ''X:0''\<rparr>)
        = Inr [1, 2, 3]"
proof -
  have h: "uri_query uri_X1 \<notin> written_key ` set [one_call]"
    by (simp add: one_call_key) (simp add: uri_X1_def str_def)
  have r: "modified_readFile (provider_after [one_call]) (uri_X1\<lparr>uri_query := str ''X:0''\<rparr>)
             = Inr [1, 2, 3]"
    by (simp add: modified_readFile_def content_provider_after last_written_def one_call_key)
       (simp add: one_call_def)
  show ?thesis
    using h stat_of_unwritten_key [OF h, of 7] r by simp
qed

section \<open>Properties of the session\<close>

subsection \<open>Splitting into lines\<close>

text \<open>
  \<open>js_split\<close> is the split of JavaScript: one piece more than there are separators,
  and no separator in a piece.
\<close>

lemma js_split_not_Nil: "js_split sep s \<noteq> []"
  by (induction s) (auto split: list.split)

lemma js_split_length: "length (js_split sep s) = Suc (count_list s sep)"
proof (induction s)
  case Nil
  show ?case by simp
next
  case (Cons c s)
  then show ?case
    using js_split_not_Nil [of sep s] by (cases "js_split sep s") auto
qed

lemma js_split_no_sep: "l \<in> set (js_split sep s) \<Longrightarrow> sep \<notin> set l"
proof (induction s arbitrary: l)
  case Nil
  then show ?case by simp
next
  case (Cons c s)
  then show ?case
    using js_split_not_Nil [of sep s]
    by (cases "js_split sep s") (auto split: if_splits)
qed

subsection \<open>What the blocks leave unchanged\<close>

lemma scrollAnimation_frame:
  "scrollAnimation line endLine totalLines st =
     st\<lparr>calls := calls (scrollAnimation line endLine totalLines st)\<rparr>"
proof (induction line endLine totalLines st rule: scrollAnimation.induct)
  case (1 line endLine totalLines st)
  show ?case
  proof (cases "line \<le> endLine")
    case True
    let ?st' = "call (Delay 16)
                 (call (RevealRange (clampCell line (cellCount (notebook st)))
                                    (clampCell line (cellCount (notebook st)))) st)"
    let ?next = "scrollAnimation (line + max 1 (totalLines div 10)) endLine totalLines ?st'"
    have step: "scrollAnimation line endLine totalLines st = ?next"
      using True by (subst scrollAnimation.simps) simp
    have "?next = ?st'\<lparr>calls := calls ?next\<rparr>"
      using "1.IH" [OF True] .
    then show ?thesis
      unfolding step by (simp add: call_def)
  next
    case False
    then show ?thesis
      by (subst (1 2) scrollAnimation.simps) simp
  qed
qed

lemma scrollAnimation_notebook:
  "notebook (scrollAnimation line endLine totalLines st) = notebook st"
  by (subst scrollAnimation_frame) simp

lemma registerAbortListener_notebook:
  "notebook (snd (registerAbortListener sig (s, st))) = notebook st"
  by (simp add: registerAbortListener_def call_def split: option.split)

lemma autoScroll_notebook:
  "notebook (autoScroll n m st) = notebook st"
  by (simp add: autoScroll_def Let_def scrollNotebookToCell_def call_def
      scrollAnimation_notebook)

lemma applyFinalContent_notebook:
  "notebook (applyFinalContent env content' st) =
     (case executeDataToNotebook env (notebookType (notebook st)) content' of
        Data cells \<Rightarrow> (notebook st)\<lparr>nb_cells := cells, nb_isDirty := True\<rparr>
      | NoData \<Rightarrow> notebook st
      | ConversionError \<Rightarrow> notebook st)"
  by (simp add: applyFinalContent_def Let_def scrollToFirstNotebookCell_def call_def
      applyEdit_replaceCells_def split: Converted.split)

text \<open>
  A final \<open>update\<close> on a live session hands the converter the content less one leading
  byte-order-mark, and the document then holds the cells the converter made of it.
\<close>

lemma update_final_notebook:
  assumes "\<not> isFinalized s" and "\<not> isReverted s"
  shows "notebook (snd (update env content' True abortSignal (s, st))) =
     (case executeDataToNotebook env (notebookType (notebook st)) (stripBOM content') of
        Data cells \<Rightarrow> (notebook st)\<lparr>nb_cells := cells, nb_isDirty := True\<rparr>
      | NoData \<Rightarrow> notebook st
      | ConversionError \<Rightarrow> notebook st)"
proof -
  obtain s2 st2 where
    r: "registerAbortListener abortSignal (s\<lparr>isFinalized := True\<rparr>, st) = (s2, st2)"
    by (cases "registerAbortListener abortSignal (s\<lparr>isFinalized := True\<rparr>, st)") auto
  have nb: "notebook st2 = notebook st"
    using registerAbortListener_notebook [of abortSignal "s\<lparr>isFinalized := True\<rparr>" st] r
    by simp
  show ?thesis
    using assms
    by (simp add: update_def Let_def r applyFinalContent_notebook autoScroll_notebook nb
        split: Converted.split)
qed

lemma closeTabs_notebook:
  "notebook (foldl (\<lambda>acc t. if \<not> tab_isDirty t then closeTab t acc else acc) st ts)
     = notebook st"
  by (induction ts arbitrary: st) (simp_all add: closeTab_def call_def)

lemma closeAllNonDirtyDiffViews_notebook:
  "notebook (closeAllNonDirtyDiffViews st) = notebook st"
  by (simp add: closeAllNonDirtyDiffViews_def Let_def closeTabs_notebook)

lemma waitForDiagnostic_notebook:
  "notebook (waitForDiagnostic env s st) = notebook st"
  by (simp add: waitForDiagnostic_def Let_def call_def)

subsection \<open>What \<open>saveChanges\<close> computes\<close>

text \<open>
  \<open>saveChanges\<close> touches the document only by saving it when it is dirty. Its three
  reports are computed from the notebook type of the document, which saving does not
  change, and never from the cells: the summary compares the original content with the
  notebook type, the user edits compare the notebook type with the caller's content,
  and the formatting edits compare the notebook type with itself.
\<close>

lemma saveChanges_notebook:
  "notebook (snd (snd (saveChanges env relPath newContent x))) =
     (if nb_isDirty (notebook (snd x)) then saved env (notebook (snd x)) else notebook (snd x))"
  by (cases x)
     (simp add: saveChanges_def Let_def waitForDiagnostic_notebook
       closeAllNonDirtyDiffViews_notebook call_def)

lemma saveChanges_editSummary:
  "editSummary (fst (saveChanges env relPath newContent x)) =
     getEditSummary (diffLines env) (originalContent (fst x)) (notebookType (notebook (snd x)))"
  by (cases x) (simp add: saveChanges_def Let_def call_def saved_def)

lemma saveChanges_userEdits:
  "userEdits (fst (saveChanges env relPath newContent x)) =
     (let eol = (if includesCRLF newContent then [CR, LF] else [LF])
      in if normalizeContent eol (notebookType (notebook (snd x))) \<noteq> normalizeContent eol newContent
         then Some (createPrettyPatch env relPath (normalizeContent eol newContent)
                      (normalizeContent eol (notebookType (notebook (snd x)))))
         else None)"
  by (cases x) (simp add: saveChanges_def Let_def)

lemma saveChanges_autoFormattingEdits:
  "autoFormattingEdits (fst (saveChanges env relPath newContent x)) = None"
  by (cases x) (simp add: saveChanges_def Let_def call_def saved_def)

subsection \<open>The session of \<open>X\<close>\<close>

lemma session_X_live: "\<not> isFinalized session_X" "\<not> isReverted session_X"
  by (simp_all add: session_X_def session_def)

lemma stripBOM_a_c: "stripBOM a_c = a_c" "stripBOM (BOM # a_c) = a_c"
  by (simp_all add: stripBOM_def a_c_def str_def BOM_def)

lemma updated_X_notebook:
  "executeDataToNotebook env = (\<lambda>nbType s. Data [s]) \<Longrightarrow>
   notebook (snd (updated_X env content')) =
     \<lparr>nb_uri = file_a, notebookType = str ''jupyter-notebook'', nb_cells = [stripBOM content'],
      nb_isDirty = True\<rparr>"
  unfolding updated_X_def
  by (subst update_final_notebook [OF session_X_live]) (simp add: state_X_def)

lemma updated_X_originalContent:
  "originalContent (fst (updated_X env content')) = a_b"
  by (simp add: updated_X_def update_def Let_def session_X_def session_def
      registerAbortListener_def)

lemma normalize_jupyter:
  "normalizeContent [LF] (str ''jupyter-notebook'') = str ''jupyter-notebook'' @ [LF]"
  by (simp add: normalizeContent_def trimEnd_def isWhiteSpace_def str_def LF_def CR_def)

lemma normalize_a_c: "normalizeContent [LF] a_c = a_c"
  by (simp add: normalizeContent_def trimEnd_def isWhiteSpace_def str_def LF_def CR_def a_c_def)

lemma normalize_indented: "normalizeContent [LF] (str '' '' @ a_c) = str '' '' @ a_c"
  by (simp add: normalizeContent_def trimEnd_def isWhiteSpace_def str_def LF_def CR_def a_c_def)

lemma includesCRLF_a_c: "\<not> includesCRLF a_c" "\<not> includesCRLF (BOM # a_c)"
  by (simp_all add: a_c_def str_def LF_def CR_def BOM_def)

lemma plain_env_fields:
  "executeDataToNotebook plain_env = (\<lambda>nbType s. Data [s])"
  "executeDataToNotebook indenting_env = (\<lambda>nbType s. Data [s])"
  "formatOnSave plain_env = (\<lambda>cells. cells)"
  "formatOnSave indenting_env = map (\<lambda>cell. str '' '' @ cell)"
  "diffLines plain_env = lineDiff"
  by (simp_all add: plain_env_def indenting_env_def)

text \<open>
  Claim C1, at the tool handler's own sequence of calls. The session of \<open>X\<close> is updated
  with the final text \<open>a_c\<close> and saved with the same text as baseline. In the editor
  that indents on save, the document holds the baseline before saving (A = B) and the
  indented text after, which differs after normalisation (A \<noteq> C): the claim has
  \<open>userEdits\<close> absent and \<open>autoFormattingEdits\<close> present, and \<open>saveChanges\<close> returns
  \<open>userEdits\<close> present and \<open>autoFormattingEdits\<close> absent. In the editor that formats
  nothing the document holds the baseline before and after (A = B = C): the claim has
  both absent, and \<open>saveChanges\<close> returns \<open>userEdits\<close> present.
\<close>

theorem saveChanges_edits_of_untouched_document:
  "nb_cells (notebook (snd (updated_X indenting_env a_c))) = [a_c]
   \<and> nb_cells (notebook (snd (snd (saved_X indenting_env a_c)))) = [str '' '' @ a_c]
   \<and> normalizeContent [LF] a_c \<noteq> normalizeContent [LF] (str '' '' @ a_c)
   \<and> userEdits (fst (saved_X indenting_env a_c)) \<noteq> None
   \<and> autoFormattingEdits (fst (saved_X indenting_env a_c)) = None
   \<and> nb_cells (notebook (snd (updated_X plain_env a_c))) = [a_c]
   \<and> nb_cells (notebook (snd (snd (saved_X plain_env a_c)))) = [a_c]
   \<and> userEdits (fst (saved_X plain_env a_c)) \<noteq> None"
proof -
  have nb: "notebook (snd (updated_X indenting_env a_c)) =
              \<lparr>nb_uri = file_a, notebookType = str ''jupyter-notebook'', nb_cells = [a_c],
               nb_isDirty = True\<rparr>"
    using updated_X_notebook [OF plain_env_fields(2), of a_c] by (simp add: stripBOM_a_c)
  have 1: "nb_cells (notebook (snd (updated_X indenting_env a_c))) = [a_c]"
    by (simp add: nb)
  have 2: "nb_cells (notebook (snd (snd (saved_X indenting_env a_c)))) = [str '' '' @ a_c]"
    by (simp add: saved_X_def saveChanges_notebook nb saved_def plain_env_fields)
  have 3: "normalizeContent [LF] a_c \<noteq> normalizeContent [LF] (str '' '' @ a_c)"
    by (simp add: normalize_a_c normalize_indented) (simp add: a_c_def str_def)
  have differs: "normalizeContent [LF] (str ''jupyter-notebook'') \<noteq> normalizeContent [LF] a_c"
    by (simp add: normalize_a_c normalize_jupyter) (simp add: a_c_def str_def LF_def)
  then have 4: "userEdits (fst (saved_X indenting_env a_c)) \<noteq> None"
    by (simp add: saved_X_def saveChanges_userEdits nb includesCRLF_a_c Let_def)
  have 5: "autoFormattingEdits (fst (saved_X indenting_env a_c)) = None"
    by (simp add: saved_X_def saveChanges_autoFormattingEdits)
  have nb': "notebook (snd (updated_X plain_env a_c)) =
              \<lparr>nb_uri = file_a, notebookType = str ''jupyter-notebook'', nb_cells = [a_c],
               nb_isDirty = True\<rparr>"
    using updated_X_notebook [OF plain_env_fields(1), of a_c] by (simp add: stripBOM_a_c)
  have 6: "nb_cells (notebook (snd (updated_X plain_env a_c))) = [a_c]"
    by (simp add: nb')
  have 7: "nb_cells (notebook (snd (snd (saved_X plain_env a_c)))) = [a_c]"
    by (simp add: saved_X_def saveChanges_notebook nb' saved_def plain_env_fields)
  have 8: "userEdits (fst (saved_X plain_env a_c)) \<noteq> None"
    using differs by (simp add: saved_X_def saveChanges_userEdits nb' includesCRLF_a_c Let_def)
  from 1 2 3 4 5 6 7 8 show ?thesis by simp
qed

text \<open>
  Claim C2, at the claim's own input: the original snapshot is \<open>a_b\<close>, the session is
  updated with the final text \<open>a_c\<close> and saved. The summary \<open>saveChanges\<close> returns counts
  the lines of the notebook type against the original, one added and two removed; the
  same summary of the original against the text is the claim's one added and one
  removed.
\<close>

theorem saveChanges_editSummary_of_one_changed_line:
  "editSummary (fst (saved_X plain_env a_c)) = \<lparr>added = 1, removed = 2\<rparr>
   \<and> getEditSummary lineDiff a_b a_c = \<lparr>added = 1, removed = 1\<rparr>"
proof -
  have nb: "notebookType (notebook (snd (updated_X plain_env a_c))) = str ''jupyter-notebook''"
    using updated_X_notebook [OF plain_env_fields(1), of a_c] by simp
  have "getEditSummary lineDiff a_b (str ''jupyter-notebook'') = \<lparr>added = 1, removed = 2\<rparr>"
    by (simp add: getEditSummary_def lineDiff_def editCost_def mkChange_def a_b_def str_def
        LF_def CR_def)
  then have 1: "editSummary (fst (saved_X plain_env a_c)) = \<lparr>added = 1, removed = 2\<rparr>"
    by (simp add: saved_X_def saveChanges_editSummary nb updated_X_originalContent
        plain_env_fields)
  have 2: "getEditSummary lineDiff a_b a_c = \<lparr>added = 1, removed = 1\<rparr>"
    by (simp add: getEditSummary_def lineDiff_def editCost_def mkChange_def a_b_def a_c_def
        str_def LF_def CR_def)
  from 1 2 show ?thesis by simp
qed

text \<open>
  Claim C6, on a text that begins with a byte-order-mark: the session of \<open>X\<close> is updated
  with the final text \<open>BOM # a_c\<close> and saved, in the editor that formats nothing. The
  document holds the text without the mark after the update and still after the save:
  \<open>saveChanges\<close> reinstates nothing, and its result has no content field. The claim and
  the comment in \<open>update\<close> have one mark in the saved content.
\<close>

theorem saved_content_has_no_byte_order_mark:
  "nb_cells (notebook (snd (updated_X plain_env (BOM # a_c)))) = [a_c]
   \<and> nb_cells (notebook (snd (snd (saved_X plain_env (BOM # a_c))))) = [a_c]
   \<and> BOM \<notin> set a_c"
proof -
  have nb: "notebook (snd (updated_X plain_env (BOM # a_c))) =
              \<lparr>nb_uri = file_a, notebookType = str ''jupyter-notebook'', nb_cells = [a_c],
               nb_isDirty = True\<rparr>"
    using updated_X_notebook [OF plain_env_fields(1), of "BOM # a_c"]
    by (simp add: stripBOM_a_c)
  have 1: "nb_cells (notebook (snd (updated_X plain_env (BOM # a_c)))) = [a_c]"
    by (simp add: nb)
  have 2: "nb_cells (notebook (snd (snd (saved_X plain_env (BOM # a_c))))) = [a_c]"
    by (simp add: saved_X_def saveChanges_notebook nb saved_def plain_env_fields)
  have 3: "BOM \<notin> set a_c"
    by (simp add: a_c_def str_def BOM_def LF_def)
  from 1 2 3 show ?thesis by simp
qed

text \<open>
  Claim C4. On a session whose finalized flag or reverted flag is set, \<open>update\<close> returns
  the session and the whole state as they were, for every content, finality and abort
  signal: the streamed lines, the flags, the document and the trace of editor calls are
  unchanged.
\<close>

theorem update_after_finalized_or_reverted:
  "isFinalized s \<or> isReverted s \<Longrightarrow> update env content' isFinal abortSignal (s, st) = (s, st)"
  by (simp add: update_def)

theorem update_after_finalized_or_reverted_witness:
  "(isFinalized finalized_X \<or> isReverted finalized_X)
   \<and> update plain_env a_c True None (finalized_X, state_X) = (finalized_X, state_X)"
proof -
  have h: "isFinalized finalized_X \<or> isReverted finalized_X"
    by (simp add: finalized_X_def)
  show ?thesis
    using h update_after_finalized_or_reverted [OF h] by simp
qed

lemma revertAndClose_sets_isReverted:
  "isReverted (fst (snd (revertAndClose env x)))"
  by (cases x) (simp add: revertAndClose_def Let_def split: prod.split Outcome.split)

text \<open>
  Claim C5. Whatever the first call of \<open>revertAndClose\<close> did (and whether it resolved or
  was rejected by the converter), a second call on the session and state it left
  resolves and returns them as they are: the flags, the document, the tabs and the trace
  of editor calls are those the first call left, so nothing is reverted, saved, closed
  or reopened a second time.
\<close>

theorem revertAndClose_twice:
  "revertAndClose env (snd (revertAndClose env x)) = (Resolved, snd (revertAndClose env x))"
proof -
  obtain r s' st' where first: "revertAndClose env x = (r, s', st')"
    by (cases "revertAndClose env x") auto
  have "isReverted s'"
    using revertAndClose_sets_isReverted [of env x] first by simp
  then have "revertAndClose env (s', st') = (Resolved, s', st')"
    by (simp add: revertAndClose_def)
  with first show ?thesis by simp
qed

text \<open>
  Claim C7. An \<open>update\<close> that passes the guard the method opens with (the session is
  neither finalized nor reverted) splits the content, taken after the removal of a
  leading byte-order-mark the method does first, at the line feeds. When the update is
  not final the last piece is dropped, when it is final none is. The lines compared
  with the lines streamed before are the retained ones: the new lines are the retained
  lines past the number streamed before, and their number decides the scrolling.
  Afterwards the streamed lines of the session are exactly the retained lines.
\<close>

theorem update_streamedLines:
  assumes "\<not> isFinalized s" and "\<not> isReverted s"
  shows "streamedLines (fst (update env content' isFinal abortSignal (s, st))) =
           (if isFinal then js_split LF (stripBOM content')
            else butlast (js_split LF (stripBOM content')))
         \<and> snd (update env content' isFinal abortSignal (s, st)) =
             (let retained = (if isFinal then js_split LF (stripBOM content')
                              else butlast (js_split LF (stripBOM content')));
                  new = drop (length (streamedLines s)) retained;
                  st2 = (case abortSignal of
                           Some sig \<Rightarrow> call (AddAbortListener sig) st
                         | None \<Rightarrow> st);
                  st3 = autoScroll (length (streamedLines s)) (length new) st2
              in if isFinal then applyFinalContent env (stripBOM content') st3 else st3)"
  using assms
  by (simp add: update_def Let_def registerAbortListener_def split: option.split prod.split)

lemma split_a_b_c: "js_split LF (stripBOM a_b_c) = [str ''a'', str ''b'', str ''c'']"
  by (simp add: a_b_c_def stripBOM_def str_def LF_def BOM_def)

lemma autoScroll_one_new_line:
  "autoScroll (Suc 0) (Suc 0) state_four_cells = call (RevealRange 1 1) state_four_cells"
  by (simp add: autoScroll_def ShouldAutoScroll_def scrollNotebookToCell_def cellCount_def
      state_four_cells_def state_X_def Let_def)

lemma autoScroll_two_new_lines:
  "autoScroll (Suc 0) (Suc (Suc 0)) state_four_cells
     = call (RevealRange 2 2) state_four_cells"
  by (simp add: autoScroll_def ShouldAutoScroll_def scrollNotebookToCell_def cellCount_def
      state_four_cells_def state_X_def Let_def)

text \<open>
  On the session with the line \<open>a\<close> streamed and the text \<open>a_b_c\<close>: a partial update
  retains \<open>a\<close> and \<open>b\<close>, finds one new line and reveals cell 1; a final update retains
  all three, finds two new lines and reveals cell 2 before it applies the content.
\<close>

theorem update_streamedLines_witness:
  "\<not> isFinalized streaming_X \<and> \<not> isReverted streaming_X
   \<and> streamedLines streaming_X = [str ''a'']
   \<and> streamedLines (fst (update plain_env a_b_c False None (streaming_X, state_four_cells)))
        = [str ''a'', str ''b'']
   \<and> calls (snd (update plain_env a_b_c False None (streaming_X, state_four_cells)))
        = [RevealRange 1 1]
   \<and> streamedLines (fst (update plain_env a_b_c True None (streaming_X, state_four_cells)))
        = [str ''a'', str ''b'', str ''c'']
   \<and> calls (snd (update plain_env a_b_c True None (streaming_X, state_four_cells)))
        = [RevealRange 2 2, ApplyEdit file_a, Delay 300, RevealRange 0 0]"
proof -
  have live: "\<not> isFinalized streaming_X" "\<not> isReverted streaming_X"
    and streamed: "streamedLines streaming_X = [str ''a'']"
    by (simp_all add: streaming_X_def session_X_def session_def)
  have final: "calls (applyFinalContent plain_env (stripBOM a_b_c)
                        (call (RevealRange 2 2) state_four_cells))
                 = [RevealRange 2 2, ApplyEdit file_a, Delay 300, RevealRange 0 0]"
    by (simp add: applyFinalContent_def plain_env_def applyEdit_replaceCells_def call_def
        scrollToFirstNotebookCell_def cellCount_def state_four_cells_def state_X_def Let_def)
  have start: "calls (call (RevealRange 1 1) state_four_cells) = [RevealRange 1 1]"
    by (simp add: call_def state_four_cells_def state_X_def)
  show ?thesis
    using live streamed
      update_streamedLines [OF live, of plain_env a_b_c False None state_four_cells]
      update_streamedLines [OF live, of plain_env a_b_c True None state_four_cells]
    by (simp add: split_a_b_c autoScroll_one_new_line autoScroll_two_new_lines final start
        Let_def)
qed

section \<open>Properties of the tab reconciler\<close>

text \<open>
  What \<open>handleTabChanges\<close> keeps on a close event, for a registry with one session per
  id: the sessions whose id is the original path of an open text diff tab on the
  original scheme, less those on a file of a session without such a tab. With no such
  tab open, and a notebook diff tab is none, it keeps nothing.
\<close>

lemma set_set_add: "set (set_add a xs) = insert a (set xs)"
  by (auto simp: set_add_def)

lemma calls_fold_DiffViewMap:
  "DiffViewMap (foldl (\<lambda>acc d. call (f d) acc) st ds) = DiffViewMap st"
  by (induction ds arbitrary: st) (simp_all add: call_def)

lemma dispose_DiffViewMap: "DiffViewMap (dispose s st) = DiffViewMap st"
  by (simp add: dispose_def Let_def calls_fold_DiffViewMap) (simp add: call_def)

lemma focus_fold_DiffViewMap:
  "DiffViewMap (foldl (\<lambda>acc (ident, diffView). focus diffView acc) st m) = DiffViewMap st"
  by (induction m arbitrary: st)
     (simp_all add: focus_def runVSCodeDiff_def call_def split: prod.split)

lemma focusDiffViews_DiffViewMap: "DiffViewMap (focusDiffViews st) = DiffViewMap st"
  by (simp add: focusDiffViews_def focus_fold_DiffViewMap)

lemma remove_fold_DiffViewMap:
  "DiffViewMap
     (foldl (\<lambda>acc ident.
               case map_of (DiffViewMap acc) ident of
                 Some diffView \<Rightarrow>
                   (dispose diffView acc)
                     \<lparr>DiffViewMap := filter (\<lambda>(k, v). k \<noteq> ident) (DiffViewMap acc)\<rparr>
               | None \<Rightarrow> acc)
        st ids)
   = filter (\<lambda>(k, v). k \<notin> set ids) (DiffViewMap st)"
proof (induction ids arbitrary: st)
  case Nil
  show ?case by simp
next
  case (Cons ident ids)
  let ?step = "case map_of (DiffViewMap st) ident of
                 Some diffView \<Rightarrow>
                   (dispose diffView st)
                     \<lparr>DiffViewMap := filter (\<lambda>(k, v). k \<noteq> ident) (DiffViewMap st)\<rparr>
               | None \<Rightarrow> st"
  have one: "DiffViewMap ?step = filter (\<lambda>(k, v). k \<noteq> ident) (DiffViewMap st)"
  proof (cases "map_of (DiffViewMap st) ident")
    case None
    then have "ident \<notin> fst ` set (DiffViewMap st)"
      by (simp add: map_of_eq_None_iff)
    then have "filter (\<lambda>(k, v). k \<noteq> ident) (DiffViewMap st) = DiffViewMap st"
      by (auto simp: filter_id_conv image_iff)
    with None show ?thesis by simp
  next
    case (Some dv)
    then show ?thesis by simp
  qed
  have "filter (\<lambda>(k, v). k \<notin> set ids) (filter (\<lambda>(k, v). k \<noteq> ident) (DiffViewMap st))
          = filter (\<lambda>(k, v). k \<notin> set (ident # ids)) (DiffViewMap st)"
    by (auto intro: filter_cong)
  then show ?case
    using Cons.IH [of ?step] one by simp
qed

lemma collect_fold:
  "foldl (\<lambda>(ids, paths) (ident, diffView).
            if ident \<notin> V
            then (set_add ident ids, set_add (fsPath (fileUri diffView)) paths)
            else (ids, paths))
     (ids0, ps0) m = (ids1, ps1)
   \<Longrightarrow> set ids1 = set ids0 \<union> {k. \<exists>v. (k, v) \<in> set m \<and> k \<notin> V}
     \<and> set ps1 = set ps0 \<union> {fsPath (fileUri v) | k v. (k, v) \<in> set m \<and> k \<notin> V}"
proof (induction m arbitrary: ids0 ps0)
  case Nil
  then show ?case by simp
next
  case (Cons kv m)
  obtain k v where kv: "kv = (k, v)" by (cases kv)
  show ?case
  proof (cases "k \<notin> V")
    case True
    with Cons.prems kv have
      "foldl (\<lambda>(ids, paths) (ident, diffView).
            if ident \<notin> V
            then (set_add ident ids, set_add (fsPath (fileUri diffView)) paths)
            else (ids, paths))
        (set_add k ids0, set_add (fsPath (fileUri v)) ps0) m = (ids1, ps1)"
      by simp
    from Cons.IH [OF this] True kv show ?thesis
      by (auto simp: set_set_add)
  next
    case False
    with Cons.prems kv have
      "foldl (\<lambda>(ids, paths) (ident, diffView).
            if ident \<notin> V
            then (set_add ident ids, set_add (fsPath (fileUri diffView)) paths)
            else (ids, paths))
        (ids0, ps0) m = (ids1, ps1)"
      by simp
    from Cons.IH [OF this] False kv show ?thesis
      by auto
  qed
qed

lemma extend_fold:
  "set (foldl (\<lambda>ids (ident, diffView).
                 if fsPath (fileUri diffView) \<in> P then set_add ident ids else ids)
          ids0 m)
   = set ids0 \<union> {k. \<exists>v. (k, v) \<in> set m \<and> fsPath (fileUri v) \<in> P}"
  by (induction m arbitrary: ids0) (auto simp: set_set_add split: prod.split)

lemma handleTabChanges_DiffViewMap:
  assumes "closed e \<noteq> []" and "distinct (map fst (DiffViewMap st))"
  shows "DiffViewMap (handleTabChanges e st) =
           filter (\<lambda>(k, v). k \<in> set (visibleDiffViewIds (tabGroups st))
                            \<and> fsPath (fileUri v) \<notin> set (closedPaths st))
             (DiffViewMap st)"
proof -
  let ?V = "set (visibleDiffViewIds (tabGroups st))"
  let ?m = "DiffViewMap st"
  obtain ids1 ps1 where c:
    "foldl (\<lambda>(ids, paths) (ident, diffView).
            if ident \<notin> ?V
            then (set_add ident ids, set_add (fsPath (fileUri diffView)) paths)
            else (ids, paths))
       ([], []) ?m = (ids1, ps1)"
    by (cases "foldl (\<lambda>(ids, paths) (ident, diffView).
            if ident \<notin> ?V
            then (set_add ident ids, set_add (fsPath (fileUri diffView)) paths)
            else (ids, paths))
       ([], []) ?m") auto
  from collect_fold [OF c] have
    ids1: "set ids1 = {k. \<exists>v. (k, v) \<in> set ?m \<and> k \<notin> ?V}" and
    ps1: "set ps1 = set (closedPaths st)"
    by (force simp: closedPaths_def)+
  let ?ids = "foldl (\<lambda>ids (ident, diffView).
                 if fsPath (fileUri diffView) \<in> set ps1 then set_add ident ids else ids)
          ids1 ?m"
  have ids: "set ?ids = {k. \<exists>v. (k, v) \<in> set ?m \<and> (k \<notin> ?V \<or> fsPath (fileUri v) \<in> set (closedPaths st))}"
    unfolding extend_fold ids1 ps1 by blast
  have keep: "filter (\<lambda>(k, v). k \<notin> set ?ids) ?m =
          filter (\<lambda>(k, v). k \<in> ?V \<and> fsPath (fileUri v) \<notin> set (closedPaths st)) ?m"
  proof (rule filter_cong [OF refl])
    fix kv assume in_m: "kv \<in> set ?m"
    obtain k v where kv: "kv = (k, v)" by (cases kv)
    have same: "v' = v" if "(k, v') \<in> set ?m" for v'
      using that in_m kv assms(2) by (meson eq_key_imp_eq_value)
    have "k \<in> set ?ids \<longleftrightarrow> k \<notin> ?V \<or> fsPath (fileUri v) \<in> set (closedPaths st)"
      unfolding ids using in_m kv same by blast
    then have "k \<notin> set ?ids \<longleftrightarrow> k \<in> ?V \<and> fsPath (fileUri v) \<notin> set (closedPaths st)"
      by blast
    then show "(case kv of (k, v) \<Rightarrow> k \<notin> set ?ids) =
               (case kv of (k, v) \<Rightarrow> k \<in> ?V \<and> fsPath (fileUri v) \<notin> set (closedPaths st))"
      by (simp add: kv)
  qed
  have "DiffViewMap (handleTabChanges e st) = filter (\<lambda>(k, v). k \<notin> set ?ids) ?m"
    using assms(1)
    by (simp add: handleTabChanges_def Let_def c remove_fold_DiffViewMap
        focusDiffViews_DiffViewMap call_def)
  with keep show ?thesis by simp
qed

lemma visible_fold_no_text_diff:
  "\<forall>t \<in> set ts. \<not> isOriginTextDiffTab t \<Longrightarrow>
   foldl (\<lambda>acc t.
            case tab_input t of
              TabInputTextDiff original modified \<Rightarrow>
                if uri_scheme original = origin_scheme then set_add (uri_path original) acc
                else acc
            | _ \<Rightarrow> acc)
     acc0 ts = acc0"
  by (induction ts arbitrary: acc0)
     (auto simp: isOriginTextDiffTab_def split: TabInput.splits)

lemma visibleDiffViewIds_no_text_diff:
  "\<forall>t \<in> set (concat groups). \<not> isOriginTextDiffTab t \<Longrightarrow> visibleDiffViewIds groups = []"
  unfolding visibleDiffViewIds_def by (rule visible_fold_no_text_diff)

lemma handleTabChanges_without_text_diff_tabs:
  assumes "closed e \<noteq> []" and "distinct (map fst (DiffViewMap st))"
    and "\<forall>t \<in> set (concat (tabGroups st)). \<not> isOriginTextDiffTab t"
  shows "DiffViewMap (handleTabChanges e st) = []"
  using handleTabChanges_DiffViewMap [OF assms(1,2)]
  by (simp add: visibleDiffViewIds_no_text_diff [OF assms(3)])

text \<open>
  Claim C3, with two sessions on two files. The tab of \<open>X\<close> has been closed and the
  comparison view of \<open>Y\<close>, a notebook diff tab on the original scheme, is still open;
  the two sessions target different files. The claim keeps \<open>Y\<close> registered. The
  reconciler looks for text diff tabs only, finds no visible view, and disposes and
  removes both sessions, then the hook.
\<close>

theorem handleTabChanges_removes_visible_session:
  "DiffViewMap (handleTabChanges closed_X state_XY) = []
   \<and> calls (handleTabChanges closed_X state_XY) =
        [Dispose NotebookChangeSubscription, Dispose NotebookChangeSubscription, DisposeTabHook]
   \<and> map fst (DiffViewMap state_XY) = [str ''X'', str ''Y'']
   \<and> diffTab (str ''Y'') a_b_base64 file_b \<in> set (concat (tabGroups state_XY))
   \<and> isOriginDiffTab (diffTab (str ''Y'') a_b_base64 file_b)
   \<and> fsPath (fileUri session_Y) \<noteq> fsPath (fileUri session_X)"
  by (simp add: handleTabChanges_def visibleDiffViewIds_def set_add_def dispose_def call_def
      isOriginDiffTab_def state_XY_def state_X_def session_X_def session_Y_def session_def
      closed_X_def diffTab_def originUri_def file_a_def file_b_def fsPath_def str_def
      a_b_base64_def)

end
